theory Spec2Isabelle
  imports Complex_Main
begin

section \<open>niconico-series-feed: the request pipeline of \<open>src/index.ts\<close>\<close>

text \<open>
  The handler \<open>scrape\<close> calls \<open>check\<close>, which resolves a series identifier, fetches the
  series page, reads the embedded payload, fetches the last page when the series has more
  than 100 videos, and answers with an RSS feed of the newest 20 videos.

  The embedding threads an explicit state through \<open>check\<close>: the URLs requested, the log
  entries written, the feed object built and the response sent. What lies outside the
  repository is a parameter: the upstream (the record \<open>World\<close>: the network, the HTML
  parser behind cheerio's \<open>load\<close>, the variable \<open>SERIES_ID\<close>) and the runtime of the program
  (the record \<open>Runtime\<close>: the serialiser \<open>feed.rss2()\<close>, which may throw, the development
  flag, and how the engine prints a number too large to be printed digit by digit).
  Tracing spans and what the console echoes are observational only and are left out.

  A JavaScript \<open>number\<close> is an IEEE double. A count is modelled by the integer it holds, and
  the arithmetic of lines 134-135 is the double arithmetic on it, with its rounding.
\<close>

subsection \<open>Data: the types declared in \<open>src/index.ts\<close>\<close>

text \<open>\<open>VideoType\<close> (lines 28-34); \<open>thumbnail_url\<close> is \<open>thumbnail.url\<close>.\<close>

record VideoType =
  video_id :: string
  video_title :: string
  thumbnail_url :: string
  shortDescription :: string
  registeredAt :: string

text \<open>\<open>VideoItemType\<close> (lines 36-39); \<open>meta\<close> is never read.\<close>

record VideoItemType =
  video :: VideoType

text \<open>
  \<open>InitialData\<close> (lines 41-71), restricted to the fields the code reads:
  \<open>nvapi[i].body.data\<close> with \<open>detail.title\<close>, \<open>totalCount\<close> and \<open>items\<close>. The count of a
  payload is a number the parser has read, hence an integer that is a double.
\<close>

record PageData =
  detail_title :: string
  totalCount :: int
  items :: "VideoItemType list"

record NvapiEntry =
  body_data :: PageData

record InitialData =
  nvapi :: "NvapiEntry list"

text \<open>
  The JSON-LD block read by the revision \<open>src/unnamed/part_001\<close> (its lines 11-33), again
  restricted to the fields read: \<open>url\<close>, \<open>name\<close> and \<open>thumbnailUrl\<close>.
\<close>

record ListElement =
  element_url :: string
  element_name :: string
  element_thumbnailUrl :: "string list"

record JsonLD =
  itemListElement :: "ListElement list"

text \<open>
  A loaded page (\<open>CheerioAPI\<close>), seen through the three queries the code makes:
  \<open>body(`link[rel="canonical"]`).attr("href")\<close>,
  \<open>body("#js-initial-userpage-data").data("initial-data")\<close>, and the JSON parsed from the
  last script element. \<open>None\<close> is \<open>undefined\<close> for the first two, and a thrown error for
  the third.
\<close>

record Document =
  canonical_href :: "string option"
  initial_data :: "InitialData option"
  json_ld :: "JsonLD option"

text \<open>
  What \<open>fetch(url)\<close> settles to: a rejection (a network error, or a text that \<open>fetch\<close>
  refuses because it is no absolute URL), or a response with its HTTP status and body
  text. \<open>fetch\<close> resolves for every HTTP status.
\<close>

datatype FetchResult = NetworkError | Response nat string

text \<open>\<open>req\<close>: \<open>None\<close> is a null request; \<open>query\<close> may be missing; a parameter may be missing.\<close>

record Request =
  query :: "(string \<rightharpoonup> string) option"

record World =
  network :: "string \<Rightarrow> FetchResult"
  load :: "string \<Rightarrow> Document"
  SERIES_ID :: "string option"

text \<open>What the code throws: line 110, a rejected fetch, a property read on \<open>undefined\<close>.\<close>

datatype Error = NoSeriesIdSpecified | FetchFailure | TypeError

text \<open>How the promise of an \<open>async\<close> function settles.\<close>

datatype Completion = Fulfilled | Rejected Error

text \<open>\<open>new Date(s)\<close> and \<open>new Date()\<close>.\<close>

datatype JsDate = DateOf string | DateNow

text \<open>The object returned by \<open>extractEntry\<close> (line 90).\<close>

record Entry =
  entry_link :: string
  entry_title :: string
  entry_image :: string
  entry_date :: string
  entry_description :: string

text \<open>The argument of \<open>feed.addItem\<close> (lines 188-196); \<open>image\<close> is optional in the library.\<close>

record FeedItem =
  item_title :: string
  item_id :: string
  item_link :: string
  item_description :: string
  item_content :: string
  item_image :: "string option"
  item_date :: JsDate

text \<open>The \<open>Feed\<close> object: the options of its constructor (lines 179-185) and its items.\<close>

record Feed =
  feed_title :: string
  feed_description :: string
  feed_id :: string
  feed_link :: string
  feed_copyright :: string
  feed_items :: "FeedItem list"

text \<open>A response body: a plain text, or the serialisation \<open>feed.rss2()\<close> of a feed.\<close>

datatype Body = Plain string | Rss2 Feed

datatype Severity = INFO | CRITICAL | ERROR

text \<open>The four messages handed to \<open>writeLog\<close> (lines 157-160, 169-172, 201, 224).\<close>

datatype LogData =
    Count int string
  | NoEntriesFound "string option" string
  | CreateFeedSuccessfully "string option"
  | Content Error

record State =
  fetched :: "string list"
  logged :: "(Severity \<times> LogData) list"
  feed :: "Feed option"
  sent :: "(nat \<times> Body) option"

definition initState :: State where
  "initState = \<lparr>fetched = [], logged = [], feed = None, sent = None\<rparr>"

text \<open>
  The runtime. \<open>rss2 f\<close> is the error that \<open>feed.rss2()\<close> throws on the feed \<open>f\<close>, \<open>None\<close> when
  it returns the document (written \<open>Rss2 f\<close>). \<open>isDevelopment\<close> is line 13.
  \<open>numberToString\<close> is how the engine prints a number beyond \<open>2^53\<close>, where the digits
  printed need no longer be those of the value (and turn to exponent form from \<open>1e21\<close>).
\<close>

record Runtime =
  rss2 :: "Feed \<Rightarrow> Error option"
  isDevelopment :: bool
  numberToString :: "int \<Rightarrow> string"

subsection \<open>Numbers\<close>

text \<open>The number of binary digits of a positive integer.\<close>

function bitLength :: "int \<Rightarrow> nat" where
  "bitLength n = (if n \<le> 0 then 0 else Suc (bitLength (n div 2)))"
  by pat_completeness auto
termination
  by (relation "measure nat") auto

declare bitLength.simps [simp del]

text \<open>The integer nearest to \<open>a / b\<close>, for \<open>b > 0\<close>; a tie goes to the even one.\<close>

definition roundEven :: "int \<Rightarrow> int \<Rightarrow> int" where
  "roundEven a b =
     (let q = a div b; r = a mod b
      in if 2 * r < b then q
         else if b < 2 * r then q + 1
         else if even q then q else q + 1)"

text \<open>For \<open>a, b > 0\<close>, the exponent \<open>e\<close> with \<open>2^e \<le> a / b < 2^(e + 1)\<close>.\<close>

definition exponentOf :: "int \<Rightarrow> int \<Rightarrow> int" where
  "exponentOf a b =
     (let d = int (bitLength a) - int (bitLength b)
      in if (if 0 \<le> d then b * 2 ^ nat d \<le> a else b \<le> a * 2 ^ nat (- d))
         then d else d - 1)"

text \<open>
  The double \<open>a / b\<close> for doubles holding the integers \<open>a, b > 0\<close>: the quotient rounded to
  53 significant bits, as the pair \<open>(m, k)\<close> that stands for \<open>m * 2^k\<close>. (A quotient of a
  count by 100 neither overflows nor is subnormal.)
\<close>

definition divDouble :: "int \<Rightarrow> int \<Rightarrow> int \<times> int" where
  "divDouble a b =
     (let k = exponentOf a b - 52
      in (if k \<le> 0 then roundEven (a * 2 ^ nat (- k)) b else roundEven a (b * 2 ^ nat k), k))"

text \<open>\<open>Math.floor\<close> and \<open>Math.ceil\<close> of \<open>m * 2^k\<close>.\<close>

definition floorDouble :: "int \<times> int \<Rightarrow> int" where
  "floorDouble x = (case x of (m, k) \<Rightarrow> if 0 \<le> k then m * 2 ^ nat k else m div 2 ^ nat (- k))"

definition ceilDouble :: "int \<times> int \<Rightarrow> int" where
  "ceilDouble x = (case x of (m, k) \<Rightarrow> if 0 \<le> k then m * 2 ^ nat k else - ((- m) div 2 ^ nat (- k)))"

text \<open>\<open>Math.floor(a / b)\<close> for doubles holding the integers \<open>a\<close> and \<open>b > 0\<close>.\<close>

definition floorDiv :: "int \<Rightarrow> int \<Rightarrow> int" where
  "floorDiv a b =
     (if a = 0 then 0
      else if 0 < a then floorDouble (divDouble a b)
      else - ceilDouble (divDouble (- a) b))"

text \<open>
  The double nearest to an integer: the integer itself when it has at most 53 binary
  digits, and otherwise its 53 leading digits, rounded.
\<close>

definition roundInt :: "int \<Rightarrow> int" where
  "roundInt i =
     (let l = bitLength \<bar>i\<bar>
      in if l \<le> 53 then i
         else sgn i * (roundEven \<bar>i\<bar> (2 ^ (l - 53)) * 2 ^ (l - 53)))"

subsection \<open>Template literals\<close>

text \<open>A non-negative integer in decimal.\<close>

definition digit :: "int \<Rightarrow> char" where
  "digit d = ''0123456789'' ! nat d"

function digits :: "int \<Rightarrow> string" where
  "digits n = (if n < 10 then [digit n] else digits (n div 10) @ [digit (n mod 10)])"
  by pat_completeness auto
termination
  by (relation "measure nat") auto

declare digits.simps [simp del]

definition show_int :: "int \<Rightarrow> string" where
  "show_int i = (if i < 0 then CHR ''-'' # digits (- i) else digits i)"

text \<open>
  \<open>${n}\<close> for a double holding the integer \<open>n\<close>: its decimal digits up to \<open>2^53\<close>, and what
  the engine prints beyond.
\<close>

definition show_number :: "Runtime \<Rightarrow> int \<Rightarrow> string" where
  "show_number rt n =
     (if \<bar>n\<bar> \<le> 9007199254740992 then show_int n else numberToString rt n)"

text \<open>\<open>${x}\<close> for a value that is a string or \<open>undefined\<close>.\<close>

definition show_opt :: "string option \<Rightarrow> string" where
  "show_opt x = (case x of None \<Rightarrow> ''undefined'' | Some s \<Rightarrow> s)"

text \<open>Lines 115 and 183: \<open>`https://www.nicovideo.jp/series/${seriesId}`\<close>.\<close>

definition seriesUrl :: "string \<Rightarrow> string" where
  "seriesUrl seriesId = ''https://www.nicovideo.jp/series/'' @ seriesId"

text \<open>Line 139: \<open>`${canonicalUrl}?page=${pageNo}`\<close>.\<close>

definition pageUrl :: "Runtime \<Rightarrow> string option \<Rightarrow> int \<Rightarrow> string" where
  "pageUrl rt canonicalUrl n = show_opt canonicalUrl @ ''?page='' @ show_number rt n"

subsection \<open>The library call \<open>fetch\<close>\<close>

text \<open>
  \<open>fetch\<close> takes an absolute URL. A text that begins with a letter and whose leading run
  of scheme characters (letters, digits, \<open>+\<close>, \<open>-\<close>, \<open>.\<close>) is not followed by a colon has no
  scheme: \<open>fetch\<close> rejects it without asking the network. Every other text is left to the
  network, which may reject it as well.
\<close>

definition isLetter :: "char \<Rightarrow> bool" where
  "isLetter c = (c \<in> set ''abcdefghijklmnopqrstuvwxyzABCDEFGHIJKLMNOPQRSTUVWXYZ'')"

definition schemeChar :: "char \<Rightarrow> bool" where
  "schemeChar c = (isLetter c \<or> c \<in> set ''0123456789+-.'')"

definition noScheme :: "string \<Rightarrow> bool" where
  "noScheme url =
     (case url of
        [] \<Rightarrow> False
      | c # _ \<Rightarrow>
          isLetter c \<and> (case dropWhile schemeChar url of [] \<Rightarrow> True | d # _ \<Rightarrow> d \<noteq> CHR '':''))"

definition fetch :: "World \<Rightarrow> string \<Rightarrow> FetchResult" where
  "fetch w url = (if noScheme url then NetworkError else network w url)"

subsection \<open>The functions of \<open>src/index.ts\<close>\<close>

definition extractCanonicalUrl :: "Document \<Rightarrow> string option" where
  "extractCanonicalUrl body = canonical_href body"

definition extractInitialAPIData :: "Document \<Rightarrow> InitialData option" where
  "extractInitialAPIData body = initial_data body"

text \<open>
  \<open>initialData.nvapi[0].body.data\<close> (lines 125 and 150): reading \<open>nvapi\<close> of \<open>undefined\<close>,
  or \<open>body\<close> of the missing first element, throws.
\<close>

definition firstBodyData :: "InitialData option \<Rightarrow> Error + PageData" where
  "firstBodyData initialData =
     (case initialData of
        None \<Rightarrow> Inl TypeError
      | Some d \<Rightarrow> (case nvapi d of [] \<Rightarrow> Inl TypeError | e # _ \<Rightarrow> Inr (body_data e)))"

definition extractEntry :: "VideoItemType \<Rightarrow> Entry" where
  "extractEntry videoItem =
     \<lparr>entry_link = ''https://www.nicovideo.jp/watch/'' @ video_id (video videoItem),
      entry_title = video_title (video videoItem),
      entry_image = thumbnail_url (video videoItem),
      entry_date = registeredAt (video videoItem),
      entry_description = shortDescription (video videoItem)\<rparr>"

definition writeLog :: "Severity \<Rightarrow> LogData \<Rightarrow> State \<Rightarrow> State" where
  "writeLog severity data s = s\<lparr>logged := logged s @ [(severity, data)]\<rparr>"

text \<open>\<open>fetch(url).then((res) => res.text())\<close>: the status of the response is not read.\<close>

definition fetchText :: "World \<Rightarrow> string \<Rightarrow> State \<Rightarrow> (Error + string) \<times> State" where
  "fetchText w url s =
     (case fetch w url of
        NetworkError \<Rightarrow> (Inl FetchFailure, s\<lparr>fetched := fetched s @ [url]\<rparr>)
      | Response status text \<Rightarrow> (Inr text, s\<lparr>fetched := fetched s @ [url]\<rparr>))"

text \<open>\<open>res?.status(code)?.send(body)\<close>: nothing is sent when \<open>res\<close> is null.\<close>

definition send :: "bool \<Rightarrow> nat \<Rightarrow> Body \<Rightarrow> State \<Rightarrow> State" where
  "send res code body s = (if res then s\<lparr>sent := Some (code, body)\<rparr> else s)"

text \<open>Line 108: \<open>req?.query?.seriesId ?? process.env.SERIES_ID\<close>.\<close>

definition querySeriesId :: "Request option \<Rightarrow> string option" where
  "querySeriesId req =
     (case req of
        None \<Rightarrow> None
      | Some r \<Rightarrow> (case query r of None \<Rightarrow> None | Some q \<Rightarrow> q ''seriesId''))"

definition resolveSeriesId :: "World \<Rightarrow> Request option \<Rightarrow> string option" where
  "resolveSeriesId w req =
     (case querySeriesId req of None \<Rightarrow> SERIES_ID w | Some v \<Rightarrow> Some v)"

text \<open>
  Lines 134-135, in double arithmetic: the quotient is rounded before \<open>Math.floor\<close>, and so
  is the sum \<open>pageNo + 1\<close>. The remainder \<open>%\<close> of two doubles is exact, and it is zero
  exactly when \<open>seriesCount mod 100\<close> is.
\<close>

definition pageNo :: "int \<Rightarrow> int" where
  "pageNo seriesCount =
     (if seriesCount mod 100 \<noteq> 0 then roundInt (floorDiv seriesCount 100 + 1)
      else floorDiv seriesCount 100)"

text \<open>Lines 163-166: \<open>data.items.reverse().slice(0, 20).map(extractEntry)\<close>.\<close>

definition entriesOf :: "VideoItemType list \<Rightarrow> Entry list" where
  "entriesOf videoItems = map extractEntry (take 20 (rev videoItems))"

text \<open>Lines 179-185.\<close>

definition newFeed :: "string \<Rightarrow> string \<Rightarrow> Feed" where
  "newFeed feedTitle seriesId =
     \<lparr>feed_title = feedTitle, feed_description = feedTitle, feed_id = [],
      feed_link = seriesUrl seriesId, feed_copyright = [], feed_items = []\<rparr>"

text \<open>Lines 188-196; \<open>entry.link ?? ""\<close> is \<open>entry.link\<close>, which is always a string.\<close>

definition itemOf :: "Entry \<Rightarrow> FeedItem" where
  "itemOf entry =
     \<lparr>item_title = entry_title entry,
      item_id = entry_link entry,
      item_link = entry_link entry,
      item_description = entry_description entry,
      item_content = entry_link entry,
      item_image = Some (entry_image entry),
      item_date = DateOf (entry_date entry)\<rparr>"

definition addItem :: "Feed \<Rightarrow> FeedItem \<Rightarrow> Feed" where
  "addItem f item = f\<lparr>feed_items := feed_items f @ [item]\<rparr>"

text \<open>
  Lines 155-207 of \<open>check\<close>: from the final \<open>data\<close> to the response. \<open>feed.rss2()\<close> is called
  at line 204 in development mode and at line 207 when there is a response object
  (\<open>res?.\<close> skips the call and its argument otherwise); when it throws, \<open>check\<close> rejects.
\<close>

definition respond ::
  "Runtime \<Rightarrow> string \<Rightarrow> string option \<Rightarrow> int \<Rightarrow> PageData \<Rightarrow> bool \<Rightarrow> State
     \<Rightarrow> Completion \<times> State" where
  "respond rt seriesId canonicalUrl seriesCount data res s =
     (let feedTitle = detail_title data;
          s1 = writeLog INFO (Count seriesCount feedTitle) s;
          entries = entriesOf (items data)
      in if length entries = 0
         then (Fulfilled,
               send res 404 (Plain ''No entries found'')
                 (writeLog CRITICAL (NoEntriesFound canonicalUrl feedTitle) s1))
         else
           let f = foldl (\<lambda>f entry. addItem f (itemOf entry)) (newFeed feedTitle seriesId) entries;
               s2 = writeLog INFO (CreateFeedSuccessfully canonicalUrl) (s1\<lparr>feed := Some f\<rparr>)
           in (case (if isDevelopment rt \<or> res then rss2 rt f else None) of
                 Some e \<Rightarrow> (Rejected e, s2)
               | None \<Rightarrow> (Fulfilled, send res 200 (Rss2 f) s2)))"

text \<open>Lines 133-153 of \<open>check\<close>: the refetch of the last page, which replaces \<open>data\<close>.\<close>

definition reFetch ::
  "Runtime \<Rightarrow> World \<Rightarrow> string option \<Rightarrow> int \<Rightarrow> State \<Rightarrow> (Error + PageData) \<times> State" where
  "reFetch rt w canonicalUrl seriesCount s =
     (case fetchText w (pageUrl rt canonicalUrl (pageNo seriesCount)) s of
        (Inl e, s') \<Rightarrow> (Inl e, s')
      | (Inr body, s') \<Rightarrow> (firstBodyData (extractInitialAPIData (load w body)), s'))"

text \<open>\<open>check\<close> (lines 107-208). \<open>!seriesId\<close> holds for \<open>undefined\<close> and for the empty string.\<close>

definition check ::
  "Runtime \<Rightarrow> World \<Rightarrow> Request option \<Rightarrow> bool \<Rightarrow> State \<Rightarrow> Completion \<times> State" where
  "check rt w req res s =
     (case resolveSeriesId w req of
        None \<Rightarrow> (Rejected NoSeriesIdSpecified, s)
      | Some seriesId \<Rightarrow>
          if seriesId = [] then (Rejected NoSeriesIdSpecified, s)
          else
            (case fetchText w (seriesUrl seriesId) s of
               (Inl e, s1) \<Rightarrow> (Rejected e, s1)
             | (Inr body, s1) \<Rightarrow>
                 (case firstBodyData (extractInitialAPIData (load w body)) of
                    Inl e \<Rightarrow> (Rejected e, s1)
                  | Inr data \<Rightarrow>
                      let canonicalUrl = extractCanonicalUrl (load w body);
                          seriesCount = totalCount data
                      in (case (if 100 < seriesCount
                                then reFetch rt w canonicalUrl seriesCount s1
                                else (Inr data, s1)) of
                            (Inl e, s2) \<Rightarrow> (Rejected e, s2)
                          | (Inr data', s2) \<Rightarrow>
                              respond rt seriesId canonicalUrl seriesCount data' res s2))))"

text \<open>\<open>scrape\<close> (lines 213-227): \<open>check\<close> is awaited inside \<open>try\<close>, so a rejection is caught.\<close>

definition scrape :: "Runtime \<Rightarrow> World \<Rightarrow> Request option \<Rightarrow> bool \<Rightarrow> State" where
  "scrape rt w req res =
     (case check rt w req res initState of
        (Fulfilled, s) \<Rightarrow> s
      | (Rejected err, s) \<Rightarrow>
          send res 500 (Plain ''something went wrong. please check logs'')
            (writeLog ERROR (Content err) s))"

text \<open>The \<open>try\<close>/\<open>catch\<close> of \<open>scrape\<close> on its own, applied to how \<open>check\<close> settled.\<close>

definition caught :: "bool \<Rightarrow> Completion \<times> State \<Rightarrow> State" where
  "caught res r =
     (case r of
        (Fulfilled, s) \<Rightarrow> s
      | (Rejected err, s) \<Rightarrow>
          send res 500 (Plain ''something went wrong. please check logs'')
            (writeLog ERROR (Content err) s))"

text \<open>
  The feed that lines 179-197 build from the final \<open>data\<close>, in closed form: the options of
  the constructor and one item for each entry, in order.
\<close>

definition builtFeed :: "string \<Rightarrow> PageData \<Rightarrow> Feed" where
  "builtFeed seriesId data =
     (newFeed (detail_title data) seriesId)\<lparr>feed_items := map itemOf (entriesOf (items data))\<rparr>"

text \<open>
  What a run emits: the items of the feed it built, in order; nothing when no feed was
  built.
\<close>

definition emitted :: "State \<Rightarrow> FeedItem list" where
  "emitted s = (case feed s of None \<Rightarrow> [] | Some f \<Rightarrow> feed_items f)"


subsection \<open>The functions of \<open>src/unnamed/part_001\<close>\<close>

text \<open>
  This file holds an earlier \<open>check\<close> and \<open>scrape\<close>. Its entries come from the JSON-LD block
  of the page, and its \<open>scrape\<close> calls \<open>check\<close> without awaiting it.
\<close>

text \<open>
  \<open>extractJsonLD\<close> (its lines 77-81) throws when there is no script element, when the last
  one is empty, or when its text is not JSON; the model keeps one error for the three.
\<close>

definition extractJsonLD :: "Document \<Rightarrow> Error + JsonLD" where
  "extractJsonLD body = (case json_ld body of None \<Rightarrow> Inl TypeError | Some j \<Rightarrow> Inr j)"

text \<open>The object returned by its \<open>extractEntry\<close> (lines 87-93); \<open>thumbnailUrl[0]\<close> may be missing.\<close>

record Entry_part_001 =
  link_part_001 :: string
  title_part_001 :: string
  image_part_001 :: "string option"

definition extractEntry_part_001 :: "ListElement \<Rightarrow> Entry_part_001" where
  "extractEntry_part_001 element =
     \<lparr>link_part_001 = element_url element,
      title_part_001 = element_name element,
      image_part_001 = (case element_thumbnailUrl element of [] \<Rightarrow> None | u # _ \<Rightarrow> Some u)\<rparr>"

text \<open>Its lines 174-182.\<close>

definition itemOf_part_001 :: "Entry_part_001 \<Rightarrow> FeedItem" where
  "itemOf_part_001 entry =
     \<lparr>item_title = title_part_001 entry,
      item_id = link_part_001 entry,
      item_link = link_part_001 entry,
      item_description = link_part_001 entry,
      item_content = link_part_001 entry,
      item_image = image_part_001 entry,
      item_date = DateNow\<rparr>"

text \<open>Its lines 119-122 and 137-140: the reads after \<open>load\<close>, each of which may throw.\<close>

definition parse_part_001 :: "Document \<Rightarrow> Error + (JsonLD \<times> PageData)" where
  "parse_part_001 body =
     (case extractJsonLD body of
        Inl e \<Rightarrow> Inl e
      | Inr jsonLD \<Rightarrow>
          (case firstBodyData (extractInitialAPIData body) of
             Inl e \<Rightarrow> Inl e
           | Inr data \<Rightarrow> Inr (jsonLD, data)))"

definition reParse_part_001 :: "Document \<Rightarrow> Error + (JsonLD \<times> PageData)" where
  "reParse_part_001 body =
     (case firstBodyData (extractInitialAPIData body) of
        Inl e \<Rightarrow> Inl e
      | Inr data \<Rightarrow>
          (case extractJsonLD body of
             Inl e \<Rightarrow> Inl e
           | Inr jsonLD \<Rightarrow> Inr (jsonLD, data)))"

text \<open>Its lines 143-191; \<open>feed.rss2()\<close> is called at its lines 188 and 191.\<close>

definition respond_part_001 ::
  "Runtime \<Rightarrow> string \<Rightarrow> string option \<Rightarrow> int \<Rightarrow> JsonLD \<Rightarrow> PageData \<Rightarrow> bool \<Rightarrow> State
     \<Rightarrow> Completion \<times> State" where
  "respond_part_001 rt seriesId canonicalUrl seriesCount jsonLD data res s =
     (let feedTitle = detail_title data;
          s1 = writeLog INFO (Count seriesCount feedTitle) s;
          entries = map extractEntry_part_001 (take 20 (rev (itemListElement jsonLD)))
      in if length entries = 0
         then (Fulfilled,
               send res 404 (Plain ''No entries found'')
                 (writeLog CRITICAL (NoEntriesFound canonicalUrl feedTitle) s1))
         else
           let f = foldl (\<lambda>f entry. addItem f (itemOf_part_001 entry))
                     (newFeed feedTitle seriesId) entries;
               s2 = writeLog INFO (CreateFeedSuccessfully canonicalUrl) (s1\<lparr>feed := Some f\<rparr>)
           in (case (if isDevelopment rt \<or> res then rss2 rt f else None) of
                 Some e \<Rightarrow> (Rejected e, s2)
               | None \<Rightarrow> (Fulfilled, send res 200 (Rss2 f) s2)))"

text \<open>Its lines 128-141.\<close>

definition reFetch_part_001 ::
  "Runtime \<Rightarrow> World \<Rightarrow> string option \<Rightarrow> int \<Rightarrow> State
     \<Rightarrow> (Error + (JsonLD \<times> PageData)) \<times> State" where
  "reFetch_part_001 rt w canonicalUrl seriesCount s =
     (case fetchText w (pageUrl rt canonicalUrl (pageNo seriesCount)) s of
        (Inl e, s') \<Rightarrow> (Inl e, s')
      | (Inr body, s') \<Rightarrow> (reParse_part_001 (load w body), s'))"

text \<open>Its \<open>check\<close> (lines 109-192).\<close>

definition check_part_001 ::
  "Runtime \<Rightarrow> World \<Rightarrow> Request option \<Rightarrow> bool \<Rightarrow> State \<Rightarrow> Completion \<times> State" where
  "check_part_001 rt w req res s =
     (case resolveSeriesId w req of
        None \<Rightarrow> (Rejected NoSeriesIdSpecified, s)
      | Some seriesId \<Rightarrow>
          if seriesId = [] then (Rejected NoSeriesIdSpecified, s)
          else
            (case fetchText w (seriesUrl seriesId) s of
               (Inl e, s1) \<Rightarrow> (Rejected e, s1)
             | (Inr body, s1) \<Rightarrow>
                 (case parse_part_001 (load w body) of
                    Inl e \<Rightarrow> (Rejected e, s1)
                  | Inr (jsonLD, data) \<Rightarrow>
                      let canonicalUrl = extractCanonicalUrl (load w body);
                          seriesCount = totalCount data
                      in (case (if 100 < seriesCount
                                then reFetch_part_001 rt w canonicalUrl seriesCount s1
                                else (Inr (jsonLD, data), s1)) of
                            (Inl e, s2) \<Rightarrow> (Rejected e, s2)
                          | (Inr (jsonLD', data'), s2) \<Rightarrow>
                              respond_part_001 rt seriesId canonicalUrl seriesCount
                                jsonLD' data' res s2))))"

text \<open>
  Its \<open>scrape\<close> (lines 194-201): \<open>try { check(req, res); } catch (err) { ... }\<close>. The call is
  not awaited. An \<open>async\<close> function never throws to its caller: a failure inside \<open>check\<close>
  rejects the promise it returns, and nothing handles that promise, so the \<open>catch\<close> clause
  cannot run. The result is the state \<open>check\<close> leaves, together with how its promise
  settled.
\<close>

definition scrape_part_001 ::
  "Runtime \<Rightarrow> World \<Rightarrow> Request option \<Rightarrow> bool \<Rightarrow> Completion \<times> State" where
  "scrape_part_001 rt w req res = check_part_001 rt w req res initState"

subsection \<open>Example inputs\<close>

definition exampleVideo :: "string \<Rightarrow> VideoItemType" where
  "exampleVideo n =
     \<lparr>video = \<lparr>video_id = ''sm'' @ n, video_title = ''episode '' @ n,
                thumbnail_url = ''https://img.example/'' @ n,
                shortDescription = ''about '' @ n,
                registeredAt = ''2024-01-0'' @ n\<rparr>\<rparr>"

definition threeVideos :: "VideoItemType list" where
  "threeVideos = [exampleVideo ''1'', exampleVideo ''2'', exampleVideo ''3'']"

definition exampleData :: "int \<Rightarrow> VideoItemType list \<Rightarrow> PageData" where
  "exampleData n videoItems = \<lparr>detail_title = ''series'', totalCount = n, items = videoItems\<rparr>"

definition examplePage :: "string option \<Rightarrow> int \<Rightarrow> VideoItemType list \<Rightarrow> Document" where
  "examplePage canonicalUrl n videoItems =
     \<lparr>canonical_href = canonicalUrl,
      initial_data = Some \<lparr>nvapi = [\<lparr>body_data = exampleData n videoItems\<rparr>]\<rparr>,
      json_ld = None\<rparr>"

text \<open>
  An upstream that answers the series URL of series \<open>1\<close> with the page \<open>first\<close> under the
  given status, its third page with the page \<open>last\<close>, and nothing else.
\<close>

definition exampleWorld :: "nat \<Rightarrow> Document \<Rightarrow> Document \<Rightarrow> World" where
  "exampleWorld status firstPage lastPage =
     \<lparr>network = (\<lambda>url.
         if url = ''https://www.nicovideo.jp/series/1'' then Response status ''first''
         else if url = ''https://www.nicovideo.jp/series/1?page=3'' then Response 200 ''last''
         else NetworkError),
      load = (\<lambda>text. if text = ''first'' then firstPage else lastPage),
      SERIES_ID = None\<rparr>"

definition exampleRequest :: "string \<Rightarrow> Request" where
  "exampleRequest seriesId = \<lparr>query = Some [''seriesId'' \<mapsto> seriesId]\<rparr>"

definition exampleCanonical :: "string option" where
  "exampleCanonical = Some ''https://www.nicovideo.jp/series/1''"

text \<open>
  A production runtime whose serialiser throws when the image of an item is no absolute
  URL, and returns the document otherwise. The page numbers of the examples are below
  \<open>2^53\<close>, so its \<open>numberToString\<close> is never consulted.
\<close>

definition exampleRuntime :: Runtime where
  "exampleRuntime =
     \<lparr>rss2 = (\<lambda>f. if list_all (\<lambda>item. case item_image item of
                                           None \<Rightarrow> True
                                         | Some u \<Rightarrow> \<not> noScheme u) (feed_items f)
                    then None else Some TypeError),
      isDevelopment = False,
      numberToString = show_int\<rparr>"

section \<open>Auxiliary facts\<close>

subsection \<open>Double arithmetic below \<open>2^53\<close>\<close>

lemma bitLength_bounds:
  "0 < n \<Longrightarrow> 2 ^ (bitLength n - 1) \<le> n \<and> n < 2 ^ bitLength n"
proof (induction n rule: bitLength.induct)
  case (1 n)
  show ?case
  proof (cases "n = 1")
    case True
    then show ?thesis
      by (simp add: bitLength.simps [of 1] bitLength.simps [of 0])
  next
    case False
    with "1.prems" have h: "0 < n div 2" "\<not> n \<le> 0"
      by simp_all
    from "1.IH" [OF h(2) h(1)]
    have ih: "2 ^ (bitLength (n div 2) - 1) \<le> n div 2" "n div 2 < 2 ^ bitLength (n div 2)"
      by simp_all
    have pos: "0 < bitLength (n div 2)"
      using h(1) by (simp add: bitLength.simps [of "n div 2"])
    have bl: "bitLength n = Suc (bitLength (n div 2))"
      using h(2) by (simp add: bitLength.simps [of n])
    have "2 * 2 ^ (bitLength (n div 2) - 1) \<le> n"
      using ih(1) by linarith
    moreover have "2 * (2::int) ^ (bitLength (n div 2) - 1) = 2 ^ bitLength (n div 2)"
      using pos by (cases "bitLength (n div 2)") simp_all
    moreover have "n < 2 * 2 ^ bitLength (n div 2)"
      using ih(2) by linarith
    ultimately show ?thesis
      by (simp add: bl)
  qed
qed

lemma roundEven_exact: "0 < b \<Longrightarrow> roundEven (q * b) b = q"
  by (simp add: roundEven_def)

lemma roundEven_bounds:
  assumes "0 < b"
  shows "2 * (roundEven a b * b) \<le> 2 * a + b" and "2 * a \<le> 2 * (roundEven a b * b) + b"
proof -
  have a: "a = a div b * b + a mod b"
    by simp
  have r: "0 \<le> a mod b" "a mod b < b"
    using assms by simp_all
  define q where "q = a div b"
  define r where "r = a mod b"
  have eq: "a = q * b + r" and r0: "0 \<le> r" and r1: "r < b"
    using a r by (simp_all add: q_def r_def)
  have re: "roundEven a b = (if 2 * r < b then q else if b < 2 * r then q + 1
      else if even q then q else q + 1)"
    by (simp add: roundEven_def q_def r_def Let_def)
  consider "roundEven a b = q" "2 * r \<le> b" | "roundEven a b = q + 1" "b \<le> 2 * r"
    using re by (cases "2 * r < b"; cases "b < 2 * r"; cases "even q") simp_all
  then have "2 * (roundEven a b * b) \<le> 2 * a + b \<and> 2 * a \<le> 2 * (roundEven a b * b) + b"
  proof cases
    case 1
    then show ?thesis
      using eq r0 by (simp add: algebra_simps)
  next
    case 2
    then show ?thesis
      using eq r1 by (simp add: algebra_simps)
  qed
  then show "2 * (roundEven a b * b) \<le> 2 * a + b" and "2 * a \<le> 2 * (roundEven a b * b) + b"
    by simp_all
qed

lemma exponentOf_lower:
  assumes "0 < a" "0 < b" "0 \<le> exponentOf a b"
  shows "b * 2 ^ nat (exponentOf a b) \<le> a"
proof -
  define d where "d = int (bitLength a) - int (bitLength b)"
  define t where "t = (if 0 \<le> d then b * 2 ^ nat d \<le> a else b \<le> a * 2 ^ nat (- d))"
  have e: "exponentOf a b = (if t then d else d - 1)"
    by (simp add: exponentOf_def d_def t_def Let_def)
  show ?thesis
  proof (cases t)
    case True
    with e assms(3) show ?thesis
      by (simp add: t_def split: if_splits)
  next
    case False
    with e assms(3) have d1: "1 \<le> d" and ee: "exponentOf a b = d - 1"
      by simp_all
    have ba: "2 ^ (bitLength a - 1) \<le> a"
      using bitLength_bounds [OF assms(1)] by simp
    have bb: "b < 2 ^ bitLength b"
      using bitLength_bounds [OF assms(2)] by simp
    have la: "bitLength a = bitLength b + nat d"
      using d1 by (simp add: d_def)
    have "b * 2 ^ nat (d - 1) \<le> 2 ^ bitLength b * 2 ^ nat (d - 1)"
      using bb by (simp add: mult_right_mono)
    also have "\<dots> = (2::int) ^ (bitLength b + nat (d - 1))"
      by (simp add: power_add)
    also have "bitLength b + nat (d - 1) = bitLength a - 1"
      using d1 la by simp
    finally show ?thesis
      using ba ee by simp
  qed
qed

lemma div_between:
  fixes m :: int
  assumes "0 < p" "q * p \<le> m" "m < q * p + p"
  shows "m div p = q"
proof -
  have "m = p * q + (m - q * p)"
    by (simp add: algebra_simps)
  moreover have "0 \<le> m - q * p" "m - q * p < p"
    using assms by simp_all
  ultimately show ?thesis
    by (metis int_div_pos_eq)
qed

lemma floorDiv_exact:
  assumes "0 < n" "n \<le> 9007199254740992"
  shows "floorDiv n 100 = n div 100"
proof -
  define e where "e = exponentOf n 100"
  have e46: "e \<le> 46"
  proof (rule ccontr)
    assume "\<not> e \<le> 46"
    then have e47: "47 \<le> e"
      by simp
    then have "100 * 2 ^ nat e \<le> n"
      using exponentOf_lower [of n 100] assms(1) by (simp add: e_def)
    moreover have "(2::int) ^ 47 \<le> 2 ^ nat e"
      using e47 by (intro power_increasing) simp_all
    ultimately show False
      using assms(2) by simp
  qed
  define s where "s = nat (52 - e)"
  define p where "p = (2::int) ^ s"
  have s6: "6 \<le> s"
    using e46 by (simp add: s_def)
  have "(2::int) ^ 6 \<le> 2 ^ s"
    using s6 by (intro power_increasing) simp_all
  then have p64: "64 \<le> p"
    by (simp add: p_def)
  define m where "m = roundEven (n * p) 100"
  have fd: "floorDiv n 100 = m div p"
    using assms(1) e46
    by (simp add: floorDiv_def divDouble_def floorDouble_def Let_def e_def [symmetric]
        m_def p_def s_def)
  define q where "q = n div 100"
  define r where "r = n mod 100"
  have n: "n = q * 100 + r" and r0: "0 \<le> r" and r1: "r < 100"
    by (simp_all add: q_def r_def)
  have "m div p = q"
  proof (cases "r = 0")
    case True
    then have "n * p = (q * p) * 100"
      using n by simp
    then have "m = q * p"
      unfolding m_def by (simp only: roundEven_exact)
    then show ?thesis
      using p64 by simp
  next
    case False
    then have r1': "1 \<le> r"
      using r0 by simp
    have np: "n * p = 100 * (q * p) + r * p"
      using n by (simp add: algebra_simps)
    have lo: "p \<le> r * p"
      using r1' p64 by (simp add: mult_le_cancel_right)
    have hi: "r * p \<le> 99 * p"
      using r1 p64 by (simp add: mult_right_mono)
    have b1: "2 * (m * 100) \<le> 2 * (n * p) + 100" and b2: "2 * (n * p) \<le> 2 * (m * 100) + 100"
      unfolding m_def by (rule roundEven_bounds, simp)+
    have "q * p \<le> m"
      using b2 np lo p64 by linarith
    moreover have "m < q * p + p"
      using b1 np hi p64 by linarith
    ultimately show ?thesis
      using p64 by (intro div_between) simp_all
  qed
  with fd show ?thesis
    by (simp add: q_def)
qed

lemma roundInt_exact:
  assumes "\<bar>i\<bar> < 9007199254740992"
  shows "roundInt i = i"
proof (cases "i = 0")
  case True
  then show ?thesis
    by (simp add: roundInt_def bitLength.simps [of 0])
next
  case False
  then have pos: "0 < \<bar>i\<bar>"
    by simp
  have "2 ^ (bitLength \<bar>i\<bar> - 1) \<le> \<bar>i\<bar>"
    using bitLength_bounds [OF pos] by simp
  with assms have "(2::int) ^ (bitLength \<bar>i\<bar> - 1) < 2 ^ 53"
    by simp
  then have "bitLength \<bar>i\<bar> - 1 < 53"
    by (simp only: power_strict_increasing_iff [of 2])
  then have "bitLength \<bar>i\<bar> \<le> 53"
    by linarith
  then show ?thesis
    by (simp add: roundInt_def Let_def)
qed

lemma pageNo_ceiling:
  assumes "0 < n" "n \<le> 9007199254740992"
  shows "pageNo n = \<lceil>real_of_int n / 100\<rceil>"
proof -
  have c: "\<lceil>real_of_int n / 100\<rceil> = (if n mod 100 \<noteq> 0 then n div 100 + 1 else n div 100)"
  proof -
    have "\<lceil>real_of_int n / 100\<rceil> = - (- n div 100)"
      using ceiling_divide_eq_div [of n 100] by simp
    then show ?thesis
      by (simp add: zdiv_zminus1_eq_if)
  qed
  have "\<bar>n div 100 + 1\<bar> < 9007199254740992"
    using assms by simp
  then show ?thesis
    by (simp add: pageNo_def floorDiv_exact [OF assms] roundInt_exact c)
qed

lemma pageNo_250: "pageNo 250 = 3"
  using pageNo_ceiling [of 250] by simp

lemma pageNo_large: "pageNo 56294995342131296 = 562949953421314"
  by code_simp

lemma roundInt_large: "roundInt 56294995342131296 = 56294995342131296"
  by code_simp

subsection \<open>The pipeline\<close>

lemma show_int_3: "show_int 3 = ''3''"
  by (simp add: show_int_def digits.simps digit_def)

lemma show_number_3: "show_number rt 3 = ''3''"
  by (simp add: show_number_def show_int_3)

lemma noScheme_seriesUrl: "\<not> noScheme (seriesUrl seriesId)"
  by (simp add: noScheme_def seriesUrl_def isLetter_def schemeChar_def)

lemma fetch_seriesUrl: "fetch w (seriesUrl seriesId) = network w (seriesUrl seriesId)"
  by (simp add: fetch_def noScheme_seriesUrl)

lemma noScheme_undefined: "noScheme (pageUrl rt None n)"
  by (simp add: noScheme_def pageUrl_def show_opt_def isLetter_def schemeChar_def)

lemma fetch_undefined: "fetch w (pageUrl rt None n) = NetworkError"
  by (simp add: fetch_def noScheme_undefined)

lemma foldl_addItem:
  "foldl (\<lambda>f entry. addItem f (g entry)) f0 entries
     = f0\<lparr>feed_items := feed_items f0 @ map g entries\<rparr>"
  by (induction entries arbitrary: f0) (simp_all add: addItem_def)

lemma entriesOf_Nil_iff: "length (entriesOf videoItems) = 0 \<longleftrightarrow> videoItems = []"
  by (cases videoItems rule: rev_cases) (simp_all add: entriesOf_def)

lemma respond_empty:
  "items data = [] \<Longrightarrow>
   respond rt seriesId canonicalUrl seriesCount data res s =
     (Fulfilled,
      send res 404 (Plain ''No entries found'')
        (writeLog CRITICAL (NoEntriesFound canonicalUrl (detail_title data))
           (writeLog INFO (Count seriesCount (detail_title data)) s)))"
  by (simp add: respond_def Let_def entriesOf_def)

lemma foldl_builtFeed:
  "foldl (\<lambda>f entry. addItem f (itemOf entry)) (newFeed (detail_title data) seriesId)
     (entriesOf (items data)) = builtFeed seriesId data"
  by (simp add: foldl_addItem builtFeed_def newFeed_def)

lemma respond_nonempty:
  "items data \<noteq> [] \<Longrightarrow>
   respond rt seriesId canonicalUrl seriesCount data res s =
     (case (if isDevelopment rt \<or> res then rss2 rt (builtFeed seriesId data) else None) of
        Some e \<Rightarrow>
          (Rejected e,
           writeLog INFO (CreateFeedSuccessfully canonicalUrl)
             ((writeLog INFO (Count seriesCount (detail_title data)) s)
                \<lparr>feed := Some (builtFeed seriesId data)\<rparr>))
      | None \<Rightarrow>
          (Fulfilled,
           send res 200 (Rss2 (builtFeed seriesId data))
             (writeLog INFO (CreateFeedSuccessfully canonicalUrl)
                ((writeLog INFO (Count seriesCount (detail_title data)) s)
                   \<lparr>feed := Some (builtFeed seriesId data)\<rparr>))))"
  unfolding respond_def Let_def entriesOf_Nil_iff foldl_builtFeed
  by simp

text \<open>The state after \<open>respond\<close> and the \<open>catch\<close> of \<open>scrape\<close>, field by field.\<close>

lemma fetched_caught: "fetched (caught res r) = fetched (snd r)"
  by (cases r) (simp add: caught_def send_def writeLog_def split: Completion.splits)

lemma feed_caught: "feed (caught res r) = feed (snd r)"
  by (cases r) (simp add: caught_def send_def writeLog_def split: Completion.splits)

lemma emitted_caught: "emitted (caught res r) = emitted (snd r)"
  by (simp add: emitted_def feed_caught)

lemma sent_caught:
  "sent (caught res r) =
     (case fst r of
        Fulfilled \<Rightarrow> sent (snd r)
      | Rejected err \<Rightarrow>
          if res then Some (500, Plain ''something went wrong. please check logs'')
          else sent (snd r))"
  by (cases r) (simp add: caught_def send_def writeLog_def split: Completion.splits)

lemma fetched_respond: "fetched (snd (respond rt seriesId c n data res s)) = fetched s"
  by (cases "items data = []")
     (simp_all add: respond_empty respond_nonempty send_def writeLog_def split: option.splits)

lemma feed_respond:
  "feed (snd (respond rt seriesId c n data res s)) =
     (if items data = [] then feed s else Some (builtFeed seriesId data))"
  by (cases "items data = []")
     (simp_all add: respond_empty respond_nonempty send_def writeLog_def split: option.splits)

lemma emitted_respond:
  "feed s = None \<Longrightarrow>
   emitted (snd (respond rt seriesId c n data res s)) = map itemOf (entriesOf (items data))"
  by (simp add: emitted_def feed_respond builtFeed_def entriesOf_def)

lemma sent_caught_respond:
  "sent (caught res (respond rt seriesId c n data res s)) =
     (if res
      then Some (if items data = [] then (404, Plain ''No entries found'')
                 else (case rss2 rt (builtFeed seriesId data) of
                         None \<Rightarrow> (200, Rss2 (builtFeed seriesId data))
                       | Some e \<Rightarrow> (500, Plain ''something went wrong. please check logs'')))
      else sent s)"
  by (cases "items data = []")
     (simp_all add: sent_caught respond_empty respond_nonempty send_def writeLog_def
        split: option.splits)

lemma scrape_caught: "scrape rt w req res = caught res (check rt w req res initState)"
  by (simp add: scrape_def caught_def)

text \<open>\<open>check\<close> after a first page that was fetched and read.\<close>

lemma check_first_ok:
  assumes "resolveSeriesId w req = Some seriesId" "seriesId \<noteq> []"
      and "fetch w (seriesUrl seriesId) = Response st body"
      and "firstBodyData (extractInitialAPIData (load w body)) = Inr data"
  shows "check rt w req res s =
      (case (if 100 < totalCount data
             then reFetch rt w (extractCanonicalUrl (load w body)) (totalCount data)
                    (s\<lparr>fetched := fetched s @ [seriesUrl seriesId]\<rparr>)
             else (Inr data, s\<lparr>fetched := fetched s @ [seriesUrl seriesId]\<rparr>)) of
         (Inl e, s2) \<Rightarrow> (Rejected e, s2)
       | (Inr data', s2) \<Rightarrow>
           respond rt seriesId (extractCanonicalUrl (load w body)) (totalCount data) data' res s2)"
  using assms by (simp add: check_def fetchText_def Let_def)

lemma reFetch_Response:
  "fetch w (pageUrl rt c (pageNo n)) = Response st body \<Longrightarrow>
   reFetch rt w c n s =
     (firstBodyData (extractInitialAPIData (load w body)),
      s\<lparr>fetched := fetched s @ [pageUrl rt c (pageNo n)]\<rparr>)"
  by (simp add: reFetch_def fetchText_def)

lemma reFetch_NetworkError:
  "fetch w (pageUrl rt c (pageNo n)) = NetworkError \<Longrightarrow>
   reFetch rt w c n s
     = (Inl FetchFailure, s\<lparr>fetched := fetched s @ [pageUrl rt c (pageNo n)]\<rparr>)"
  by (simp add: reFetch_def fetchText_def)

lemma fetched_reFetch:
  "fetched (snd (reFetch rt w c n s)) = fetched s @ [pageUrl rt c (pageNo n)]"
  by (simp add: reFetch_def fetchText_def split: FetchResult.splits)

text \<open>What \<open>check\<close> has requested when it settles, after a first page that was read.\<close>

lemma fetched_check:
  assumes "resolveSeriesId w req = Some seriesId" "seriesId \<noteq> []"
      and "fetch w (seriesUrl seriesId) = Response st body"
      and "firstBodyData (extractInitialAPIData (load w body)) = Inr data"
  shows "fetched (snd (check rt w req res initState)) =
           (if 100 < totalCount data
            then [seriesUrl seriesId,
                  pageUrl rt (extractCanonicalUrl (load w body)) (pageNo (totalCount data))]
            else [seriesUrl seriesId])"
proof (cases "100 < totalCount data")
  case False
  then show ?thesis
    unfolding check_first_ok [OF assms] by (simp add: fetched_respond initState_def)
next
  case True
  let ?c = "extractCanonicalUrl (load w body)"
  let ?s1 = "initState\<lparr>fetched := fetched initState @ [seriesUrl seriesId]\<rparr>"
  obtain r s2 where rf: "reFetch rt w ?c (totalCount data) ?s1 = (r, s2)"
    by (cases "reFetch rt w ?c (totalCount data) ?s1")
  have "fetched s2 = [seriesUrl seriesId, pageUrl rt ?c (pageNo (totalCount data))]"
    using fetched_reFetch [of rt w ?c "totalCount data" ?s1] rf by (simp add: initState_def)
  with True rf show ?thesis
    unfolding check_first_ok [OF assms]
    by (cases r) (simp_all add: fetched_respond)
qed

text \<open>\<open>check\<close> when the data that reaches the mapping is \<open>data'\<close>.\<close>

lemma check_final:
  assumes "resolveSeriesId w req = Some seriesId" "seriesId \<noteq> []"
      and "fetch w (seriesUrl seriesId) = Response st body"
      and "firstBodyData (extractInitialAPIData (load w body)) = Inr data"
      and "if 100 < totalCount data
           then fetch w (pageUrl rt (extractCanonicalUrl (load w body)) (pageNo (totalCount data)))
                  = Response st2 body2
                \<and> firstBodyData (extractInitialAPIData (load w body2)) = Inr data'
           else data' = data"
  shows "check rt w req res initState =
      respond rt seriesId (extractCanonicalUrl (load w body)) (totalCount data) data' res
        (initState\<lparr>fetched :=
           (if 100 < totalCount data
            then [seriesUrl seriesId,
                  pageUrl rt (extractCanonicalUrl (load w body)) (pageNo (totalCount data))]
            else [seriesUrl seriesId])\<rparr>)"
proof (cases "100 < totalCount data")
  case True
  with assms(5) show ?thesis
    unfolding check_first_ok [OF assms(1-4)] by (simp add: reFetch_Response initState_def)
next
  case False
  with assms(5) show ?thesis
    unfolding check_first_ok [OF assms(1-4)] by (simp add: initState_def)
qed

lemma check_no_series_id:
  "resolveSeriesId w req = None \<or> resolveSeriesId w req = Some [] \<Longrightarrow>
   check rt w req res s = (Rejected NoSeriesIdSpecified, s)"
  by (auto simp: check_def)


lemma check_second_NetworkError:
  assumes "resolveSeriesId w req = Some seriesId" "seriesId \<noteq> []"
      and "fetch w (seriesUrl seriesId) = Response st body"
      and "firstBodyData (extractInitialAPIData (load w body)) = Inr data"
      and "100 < totalCount data"
      and "fetch w (pageUrl rt (extractCanonicalUrl (load w body)) (pageNo (totalCount data)))
             = NetworkError"
  shows "check rt w req res s =
      (Rejected FetchFailure,
       s\<lparr>fetched := fetched s @
            [seriesUrl seriesId,
             pageUrl rt (extractCanonicalUrl (load w body)) (pageNo (totalCount data))]\<rparr>)"
  unfolding check_first_ok [OF assms(1-4)] using assms(5,6)
  by (simp add: reFetch_NetworkError)

lemma caught_Rejected:
  "caught res (Rejected err, s) =
     send res 500 (Plain ''something went wrong. please check logs'')
       (writeLog ERROR (Content err) s)"
  by (simp add: caught_def)

lemma sent_catch:
  "sent (send res 500 body (writeLog ERROR d s)) = (if res then Some (500, body) else sent s)"
  by (simp add: send_def writeLog_def)

lemma fetched_catch:
  "fetched (send res code body (writeLog sev d s)) = fetched s"
  by (simp add: send_def writeLog_def)

lemma feed_catch:
  "feed (send res code body (writeLog sev d s)) = feed s"
  by (simp add: send_def writeLog_def)

lemma reFetch_cong:
  assumes "fetch w' (pageUrl rt c (pageNo n)) = fetch w (pageUrl rt c (pageNo n))"
      and "case fetch w (pageUrl rt c (pageNo n)) of
             NetworkError \<Rightarrow> True
           | Response st2 body2 \<Rightarrow> load w' body2 = load w body2"
  shows "reFetch rt w' c n s = reFetch rt w c n s"
  using assms by (simp add: reFetch_def fetchText_def split: FetchResult.splits)






lemma sent_respond_Rejected:
  "fst (respond rt seriesId c n data res s) = Rejected err \<Longrightarrow>
   sent (snd (respond rt seriesId c n data res s)) = sent s"
  by (cases "items data = []")
     (auto simp: respond_empty respond_nonempty writeLog_def send_def
        split: option.splits if_splits)

lemma sent_fetchText: "sent (snd (fetchText w url s)) = sent s"
  by (simp add: fetchText_def split: FetchResult.splits)

lemma sent_reFetch: "sent (snd (reFetch rt w c n s)) = sent s"
  by (simp add: reFetch_def fetchText_def split: FetchResult.splits)

lemma sent_check_Rejected:
  "fst (check rt w req res s) = Rejected err \<Longrightarrow> sent (snd (check rt w req res s)) = sent s"
  by (auto simp: check_def Let_def fetchText_def reFetch_def
      split: option.splits if_splits FetchResult.splits sum.splits prod.splits
      dest: sent_respond_Rejected)

lemma scrape_catches_rejection:
  "fst (check rt w req res initState) = Rejected err \<Longrightarrow>
   sent (scrape rt w req res)
     = (if res then Some (500, Plain ''something went wrong. please check logs'') else None)"
proof -
  assume r: "fst (check rt w req res initState) = Rejected err"
  have "sent (snd (check rt w req res initState)) = None"
    using sent_check_Rejected [OF r] by (simp add: initState_def)
  with r show ?thesis
    unfolding scrape_caught sent_caught by auto
qed

lemma sent_respond_part_001:
  "sent (snd (respond_part_001 rt seriesId c n jsonLD data res s)) = Some (code, body) \<Longrightarrow>
   sent s = Some (code, body) \<or> code = 404 \<or> code = 200"
  by (auto simp: respond_part_001_def Let_def send_def writeLog_def
      split: if_splits option.splits)

lemma sent_check_part_001:
  "sent (snd (check_part_001 rt w req res s)) = Some (code, body) \<Longrightarrow>
   sent s = Some (code, body) \<or> code = 404 \<or> code = 200"
  by (auto simp: check_part_001_def Let_def fetchText_def reFetch_part_001_def
      split: option.splits if_splits FetchResult.splits sum.splits prod.splits
      dest: sent_respond_part_001)

lemma show_int_large: "show_int 562949953421314 = ''562949953421314''"
  by code_simp

lemmas example_defs =
  exampleWorld_def exampleRequest_def examplePage_def exampleData_def exampleCanonical_def
  resolveSeriesId_def querySeriesId_def seriesUrl_def firstBodyData_def
  extractInitialAPIData_def extractCanonicalUrl_def threeVideos_def
  fetch_def noScheme_def isLetter_def schemeChar_def

lemmas example_feed_defs =
  exampleRuntime_def builtFeed_def entriesOf_def itemOf_def extractEntry_def exampleVideo_def
  newFeed_def

section \<open>The claims\<close>

text \<open>
  C1, amended. When the first page was fetched and read, the requests of the run are the
  series URL alone if \<open>totalCount \<le> 100\<close>, and otherwise the series URL followed by exactly
  one request, for the page that lines 134-135 compute in double arithmetic. That page is
  \<open>\<lceil>totalCount / 100\<rceil>\<close> for every \<open>totalCount\<close> up to \<open>2^53\<close>, the range in which a
  JavaScript number holds every integer; it is page 3 (\<open>?page=3\<close>) for 250.
\<close>

theorem second_fetch_iff_over_100:
  assumes "resolveSeriesId w req = Some seriesId" "seriesId \<noteq> []"
      and "fetch w (seriesUrl seriesId) = Response st body"
      and "firstBodyData (extractInitialAPIData (load w body)) = Inr data"
  shows "fetched (scrape rt w req res) =
           (if 100 < totalCount data
            then [seriesUrl seriesId,
                  pageUrl rt (extractCanonicalUrl (load w body)) (pageNo (totalCount data))]
            else [seriesUrl seriesId])
         \<and> (totalCount data \<le> 9007199254740992 \<longrightarrow>
              fetched (scrape rt w req res) =
                (if 100 < totalCount data
                 then [seriesUrl seriesId,
                       pageUrl rt (extractCanonicalUrl (load w body))
                         \<lceil>real_of_int (totalCount data) / 100\<rceil>]
                 else [seriesUrl seriesId]))
         \<and> (\<forall>n. 100 < n \<and> n \<le> 9007199254740992 \<longrightarrow> pageNo n = \<lceil>real_of_int n / 100\<rceil>)
         \<and> pageNo 250 = 3
         \<and> (\<forall>c. pageUrl rt (Some c) (pageNo 250) = c @ ''?page=3'')"
proof -
  have a: "fetched (scrape rt w req res) =
           (if 100 < totalCount data
            then [seriesUrl seriesId,
                  pageUrl rt (extractCanonicalUrl (load w body)) (pageNo (totalCount data))]
            else [seriesUrl seriesId])"
    unfolding scrape_caught fetched_caught by (rule fetched_check [OF assms])
  have b: "pageNo n = \<lceil>real_of_int n / 100\<rceil>" if "100 < n" "n \<le> 9007199254740992" for n
    using that by (intro pageNo_ceiling) simp_all
  show ?thesis
    using b by (simp add: a pageNo_250 pageUrl_def show_opt_def show_number_3)
qed

theorem second_fetch_iff_over_100_witness:
  "resolveSeriesId
     (exampleWorld 200 (examplePage exampleCanonical 250 threeVideos) (examplePage None 250 []))
     (Some (exampleRequest ''1'')) = Some ''1''
   \<and> fetch
       (exampleWorld 200 (examplePage exampleCanonical 250 threeVideos) (examplePage None 250 []))
       (seriesUrl ''1'') = Response 200 ''first''
   \<and> firstBodyData (extractInitialAPIData (load
       (exampleWorld 200 (examplePage exampleCanonical 250 threeVideos) (examplePage None 250 []))
       ''first'')) = Inr (exampleData 250 threeVideos)
   \<and> totalCount (exampleData 250 threeVideos) \<le> 9007199254740992
   \<and> fetched (scrape exampleRuntime
        (exampleWorld 200 (examplePage exampleCanonical 250 threeVideos) (examplePage None 250 []))
        (Some (exampleRequest ''1'')) True)
      = [''https://www.nicovideo.jp/series/1'', ''https://www.nicovideo.jp/series/1?page=3'']
   \<and> fetched (scrape exampleRuntime
        (exampleWorld 200 (examplePage exampleCanonical 100 threeVideos) (examplePage None 250 []))
        (Some (exampleRequest ''1'')) True)
      = [''https://www.nicovideo.jp/series/1'']"
  using
    second_fetch_iff_over_100
      [where w = "exampleWorld 200 (examplePage exampleCanonical 250 threeVideos)
                    (examplePage None 250 [])"
         and req = "Some (exampleRequest ''1'')" and seriesId = "''1''" and res = True
         and st = 200 and body = "''first''" and data = "exampleData 250 threeVideos"
         and rt = exampleRuntime]
    second_fetch_iff_over_100
      [where w = "exampleWorld 200 (examplePage exampleCanonical 100 threeVideos)
                    (examplePage None 250 [])"
         and req = "Some (exampleRequest ''1'')" and seriesId = "''1''" and res = True
         and st = 200 and body = "''first''" and data = "exampleData 100 threeVideos"
         and rt = exampleRuntime]
  by (simp add: example_defs pageUrl_def show_opt_def show_number_3)

text \<open>
  C1 as stated fails beyond \<open>2^53\<close>. The count 56294995342131296 is a double; its quotient
  by 100 rounds up to an integer before \<open>Math.floor\<close>, and the remainder adds one more: the
  page requested is 562949953421314, and the ceiling is 562949953421313.
\<close>

theorem page_beyond_safe_integers_counterexample:
  "(100::int) < 56294995342131296
   \<and> roundInt 56294995342131296 = 56294995342131296
   \<and> \<lceil>real_of_int 56294995342131296 / 100\<rceil> = 562949953421313
   \<and> pageNo 56294995342131296 = 562949953421314
   \<and> fetched (scrape exampleRuntime
        (exampleWorld 200 (examplePage exampleCanonical 56294995342131296 threeVideos)
           (examplePage None 0 []))
        (Some (exampleRequest ''1'')) True)
      = [''https://www.nicovideo.jp/series/1'',
         ''https://www.nicovideo.jp/series/1?page=562949953421314'']"
proof -
  let ?w = "exampleWorld 200 (examplePage exampleCanonical 56294995342131296 threeVideos)
        (examplePage None 0 [])"
  let ?d = "exampleData 56294995342131296 threeVideos"
  have 1: "resolveSeriesId ?w (Some (exampleRequest ''1'')) = Some ''1''"
    by (simp add: example_defs)
  have 0: "''1'' \<noteq> []"
    by simp
  have 2: "fetch ?w (seriesUrl ''1'') = Response 200 ''first''"
    by (simp add: example_defs)
  have 3: "firstBodyData (extractInitialAPIData (load ?w ''first'')) = Inr ?d"
    by (simp add: example_defs)
  have f: "fetched (scrape exampleRuntime ?w (Some (exampleRequest ''1'')) True)
      = [''https://www.nicovideo.jp/series/1'',
         ''https://www.nicovideo.jp/series/1?page=562949953421314'']"
    unfolding scrape_caught fetched_caught fetched_check [OF 1 0 2 3]
    by (simp add: example_defs pageNo_large pageUrl_def show_opt_def show_number_def
        show_int_large)
  show ?thesis
    by (simp add: f pageNo_large roundInt_large)
qed

text \<open>
  C2. When the item list that reaches the mapping (the first page's, or the refetched
  page's when \<open>totalCount > 100\<close>) has length \<open>L \<ge> 1\<close>, the items of the feed built are the
  source items reversed and then cut to 20, which is the last 20 source items in reverse;
  there are \<open>min 20 L\<close> of them. The response is that feed with status 200, or 500 when
  the serialiser throws on it. The list \<open>[v1, v2, v3]\<close> gives the entries of
  \<open>[v3, v2, v1]\<close>.
\<close>

theorem entries_reversed_then_truncated:
  assumes "resolveSeriesId w req = Some seriesId" "seriesId \<noteq> []"
      and "fetch w (seriesUrl seriesId) = Response st body"
      and "firstBodyData (extractInitialAPIData (load w body)) = Inr data"
      and "if 100 < totalCount data
           then fetch w (pageUrl rt (extractCanonicalUrl (load w body)) (pageNo (totalCount data)))
                  = Response st2 body2
                \<and> firstBodyData (extractInitialAPIData (load w body2)) = Inr data'
           else data' = data"
      and "1 \<le> length (items data')"
  shows "emitted (scrape rt w req res) = map itemOf (map extractEntry (take 20 (rev (items data'))))
         \<and> take 20 (rev (items data')) = rev (drop (length (items data') - 20) (items data'))
         \<and> length (emitted (scrape rt w req res)) = min 20 (length (items data'))
         \<and> feed (scrape rt w req res) = Some (builtFeed seriesId data')
         \<and> sent (scrape rt w req res)
             = (if res
                then Some (case rss2 rt (builtFeed seriesId data') of
                             None \<Rightarrow> (200, Rss2 (builtFeed seriesId data'))
                           | Some e \<Rightarrow> (500, Plain ''something went wrong. please check logs''))
                else None)
         \<and> entriesOf [v1, v2, v3] = [extractEntry v3, extractEntry v2, extractEntry v1]"
proof -
  from assms(6) have ne: "items data' \<noteq> []"
    by auto
  note run = check_final [OF assms(1-5), of res]
  have e: "emitted (scrape rt w req res) = map itemOf (entriesOf (items data'))"
    unfolding scrape_caught emitted_caught run
    by (rule emitted_respond) (simp add: initState_def)
  have f: "feed (scrape rt w req res) = Some (builtFeed seriesId data')"
    unfolding scrape_caught feed_caught run using ne by (simp add: feed_respond)
  have s: "sent (scrape rt w req res)
      = (if res
         then Some (case rss2 rt (builtFeed seriesId data') of
                      None \<Rightarrow> (200, Rss2 (builtFeed seriesId data'))
                    | Some e \<Rightarrow> (500, Plain ''something went wrong. please check logs''))
         else None)"
    unfolding scrape_caught run sent_caught_respond using ne by (simp add: initState_def)
  show ?thesis
    unfolding s by (simp add: e f entriesOf_def take_rev)
qed

theorem entries_reversed_then_truncated_witness:
  "resolveSeriesId
     (exampleWorld 200 (examplePage exampleCanonical 3 threeVideos) (examplePage None 0 []))
     (Some (exampleRequest ''1'')) = Some ''1''
   \<and> fetch
       (exampleWorld 200 (examplePage exampleCanonical 3 threeVideos) (examplePage None 0 []))
       (seriesUrl ''1'') = Response 200 ''first''
   \<and> firstBodyData (extractInitialAPIData (load
       (exampleWorld 200 (examplePage exampleCanonical 3 threeVideos) (examplePage None 0 []))
       ''first'')) = Inr (exampleData 3 threeVideos)
   \<and> \<not> 100 < totalCount (exampleData 3 threeVideos)
   \<and> 1 \<le> length (items (exampleData 3 threeVideos))
   \<and> emitted (scrape exampleRuntime
        (exampleWorld 200 (examplePage exampleCanonical 3 threeVideos) (examplePage None 0 []))
        (Some (exampleRequest ''1'')) True)
      = [itemOf (extractEntry (exampleVideo ''3'')), itemOf (extractEntry (exampleVideo ''2'')),
         itemOf (extractEntry (exampleVideo ''1''))]
   \<and> sent (scrape exampleRuntime
        (exampleWorld 200 (examplePage exampleCanonical 3 threeVideos) (examplePage None 0 []))
        (Some (exampleRequest ''1'')) True)
      = Some (200, Rss2 (builtFeed ''1'' (exampleData 3 threeVideos)))"
  using entries_reversed_then_truncated
    [where w = "exampleWorld 200 (examplePage exampleCanonical 3 threeVideos)
                  (examplePage None 0 [])"
       and req = "Some (exampleRequest ''1'')" and seriesId = "''1''" and res = True
       and st = 200 and body = "''first''" and data = "exampleData 3 threeVideos"
       and data' = "exampleData 3 threeVideos" and rt = exampleRuntime]
  by (simp add: example_defs example_feed_defs)

text \<open>
  C3, amended. When the first page was fetched and read and \<open>totalCount \<le> 100\<close>, the series
  URL is the only request, and the feed items are the first page's items reversed and cut
  to 20. Their number is \<open>min 20 L\<close> for the length \<open>L\<close> of that item list; it is
  \<open>min 20 totalCount\<close> when the page lists \<open>totalCount\<close> items.
\<close>

theorem single_page_entries:
  assumes "resolveSeriesId w req = Some seriesId" "seriesId \<noteq> []"
      and "fetch w (seriesUrl seriesId) = Response st body"
      and "firstBodyData (extractInitialAPIData (load w body)) = Inr data"
      and "totalCount data \<le> 100"
  shows "fetched (scrape rt w req res) = [seriesUrl seriesId]
         \<and> emitted (scrape rt w req res) = map itemOf (map extractEntry (take 20 (rev (items data))))
         \<and> length (emitted (scrape rt w req res)) = min 20 (length (items data))
         \<and> (int (length (items data)) = totalCount data \<longrightarrow>
              int (length (emitted (scrape rt w req res))) = min 20 (totalCount data))"
proof -
  have fin: "if 100 < totalCount data
      then fetch w (pageUrl rt (extractCanonicalUrl (load w body)) (pageNo (totalCount data)))
             = Response 0 []
           \<and> firstBodyData (extractInitialAPIData (load w [])) = Inr data
      else data = data"
    using assms(5) by simp
  note run = check_final [OF assms(1-4) fin, of res]
  have f: "fetched (scrape rt w req res) = [seriesUrl seriesId]"
    unfolding scrape_caught fetched_caught run using assms(5) by (simp add: fetched_respond)
  have e: "emitted (scrape rt w req res) = map itemOf (entriesOf (items data))"
    unfolding scrape_caught emitted_caught run
    by (rule emitted_respond) (simp add: initState_def)
  show ?thesis
    by (auto simp: f e entriesOf_def)
qed

theorem single_page_entries_witness:
  "resolveSeriesId
     (exampleWorld 200 (examplePage exampleCanonical 3 threeVideos) (examplePage None 0 []))
     (Some (exampleRequest ''1'')) = Some ''1''
   \<and> fetch
       (exampleWorld 200 (examplePage exampleCanonical 3 threeVideos) (examplePage None 0 []))
       (seriesUrl ''1'') = Response 200 ''first''
   \<and> firstBodyData (extractInitialAPIData (load
       (exampleWorld 200 (examplePage exampleCanonical 3 threeVideos) (examplePage None 0 []))
       ''first'')) = Inr (exampleData 3 threeVideos)
   \<and> totalCount (exampleData 3 threeVideos) \<le> 100
   \<and> int (length (items (exampleData 3 threeVideos))) = totalCount (exampleData 3 threeVideos)
   \<and> fetched (scrape exampleRuntime
        (exampleWorld 200 (examplePage exampleCanonical 3 threeVideos) (examplePage None 0 []))
        (Some (exampleRequest ''1'')) True) = [''https://www.nicovideo.jp/series/1'']
   \<and> int (length (emitted (scrape exampleRuntime
        (exampleWorld 200 (examplePage exampleCanonical 3 threeVideos) (examplePage None 0 []))
        (Some (exampleRequest ''1'')) True))) = 3"
  using single_page_entries
    [where w = "exampleWorld 200 (examplePage exampleCanonical 3 threeVideos)
                  (examplePage None 0 [])"
       and req = "Some (exampleRequest ''1'')" and seriesId = "''1''" and res = True
       and st = 200 and body = "''first''" and data = "exampleData 3 threeVideos"
       and rt = exampleRuntime]
  by (simp add: example_defs)

text \<open>
  C3 as stated fails for a page that reports \<open>totalCount = 3\<close> and lists two videos: two
  items are emitted, not \<open>min 20 3\<close>.
\<close>

theorem count_is_not_totalCount_counterexample:
  "fetch
     (exampleWorld 200 (examplePage exampleCanonical 3 [exampleVideo ''1'', exampleVideo ''2''])
        (examplePage None 0 []))
     (seriesUrl ''1'') = Response 200 ''first''
   \<and> firstBodyData (extractInitialAPIData (load
       (exampleWorld 200 (examplePage exampleCanonical 3 [exampleVideo ''1'', exampleVideo ''2''])
          (examplePage None 0 []))
       ''first'')) = Inr (exampleData 3 [exampleVideo ''1'', exampleVideo ''2''])
   \<and> totalCount (exampleData 3 [exampleVideo ''1'', exampleVideo ''2'']) \<le> 100
   \<and> min 20 (totalCount (exampleData 3 [exampleVideo ''1'', exampleVideo ''2''])) = 3
   \<and> length (emitted (scrape exampleRuntime
        (exampleWorld 200 (examplePage exampleCanonical 3 [exampleVideo ''1'', exampleVideo ''2''])
           (examplePage None 0 []))
        (Some (exampleRequest ''1'')) True)) = 2"
proof -
  let ?w = "exampleWorld 200 (examplePage exampleCanonical 3 [exampleVideo ''1'', exampleVideo ''2''])
        (examplePage None 0 [])"
  let ?d = "exampleData 3 [exampleVideo ''1'', exampleVideo ''2'']"
  have 1: "resolveSeriesId ?w (Some (exampleRequest ''1'')) = Some ''1''"
    by (simp add: example_defs)
  have 0: "''1'' \<noteq> []"
    by simp
  have 2: "fetch ?w (seriesUrl ''1'') = Response 200 ''first''"
    by (simp add: example_defs)
  have 3: "firstBodyData (extractInitialAPIData (load ?w ''first'')) = Inr ?d"
    by (simp add: example_defs)
  have 4: "if 100 < totalCount ?d
      then fetch ?w (pageUrl exampleRuntime (extractCanonicalUrl (load ?w ''first''))
             (pageNo (totalCount ?d))) = Response 0 []
           \<and> firstBodyData (extractInitialAPIData (load ?w [])) = Inr ?d
      else ?d = ?d"
    by (simp add: example_defs)
  have "emitted (scrape exampleRuntime ?w (Some (exampleRequest ''1'')) True)
      = map itemOf (entriesOf (items ?d))"
    unfolding scrape_caught emitted_caught check_final [OF 1 0 2 3 4, of True]
    by (rule emitted_respond) (simp add: initState_def)
  then have "length (emitted (scrape exampleRuntime ?w (Some (exampleRequest ''1'')) True)) = 2"
    by (simp add: entriesOf_def exampleData_def)
  with 2 3 show ?thesis
    by (simp add: exampleData_def)
qed

text \<open>
  C4. Whatever item list reaches the mapping, the program turns each raw item of its
  reversed first 20 into an entry by \<open>extractEntry\<close>: link the watch URL of the video id, title
  the video title, image the thumbnail URL, date the registration timestamp, description
  the short description. It then adds one item to the feed for each entry, in order, with
  id, link and content the entry's link, the entry's title, description and image, and the
  date parsed from the entry's date.
\<close>

theorem entry_and_item_fields:
  assumes "resolveSeriesId w req = Some seriesId" "seriesId \<noteq> []"
      and "fetch w (seriesUrl seriesId) = Response st body"
      and "firstBodyData (extractInitialAPIData (load w body)) = Inr data"
      and "if 100 < totalCount data
           then fetch w (pageUrl rt (extractCanonicalUrl (load w body)) (pageNo (totalCount data)))
                  = Response st2 body2
                \<and> firstBodyData (extractInitialAPIData (load w body2)) = Inr data'
           else data' = data"
  shows "emitted (scrape rt w req res) =
           map (\<lambda>videoItem.
                  \<lparr>item_title = video_title (video videoItem),
                   item_id = ''https://www.nicovideo.jp/watch/'' @ video_id (video videoItem),
                   item_link = ''https://www.nicovideo.jp/watch/'' @ video_id (video videoItem),
                   item_description = shortDescription (video videoItem),
                   item_content = ''https://www.nicovideo.jp/watch/'' @ video_id (video videoItem),
                   item_image = Some (thumbnail_url (video videoItem)),
                   item_date = DateOf (registeredAt (video videoItem))\<rparr>)
             (take 20 (rev (items data')))
         \<and> emitted (scrape rt w req res) = map itemOf (entriesOf (items data'))
         \<and> entriesOf (items data') =
             map (\<lambda>videoItem.
                    \<lparr>entry_link = ''https://www.nicovideo.jp/watch/'' @ video_id (video videoItem),
                     entry_title = video_title (video videoItem),
                     entry_image = thumbnail_url (video videoItem),
                     entry_date = registeredAt (video videoItem),
                     entry_description = shortDescription (video videoItem)\<rparr>)
               (take 20 (rev (items data')))
         \<and> (\<forall>entry. item_id (itemOf entry) = entry_link entry
                    \<and> item_content (itemOf entry) = entry_link entry
                    \<and> item_date (itemOf entry) = DateOf (entry_date entry))"
proof -
  note run = check_final [OF assms(1-5), of res]
  have e: "emitted (scrape rt w req res) = map itemOf (entriesOf (items data'))"
    unfolding scrape_caught emitted_caught run
    by (rule emitted_respond) (simp add: initState_def)
  show ?thesis
    unfolding e by (simp add: entriesOf_def itemOf_def extractEntry_def)
qed

theorem entry_and_item_fields_witness:
  "resolveSeriesId
     (exampleWorld 200 (examplePage exampleCanonical 1 [exampleVideo ''7'']) (examplePage None 0 []))
     (Some (exampleRequest ''1'')) = Some ''1''
   \<and> fetch
       (exampleWorld 200 (examplePage exampleCanonical 1 [exampleVideo ''7''])
          (examplePage None 0 []))
       (seriesUrl ''1'') = Response 200 ''first''
   \<and> firstBodyData (extractInitialAPIData (load
       (exampleWorld 200 (examplePage exampleCanonical 1 [exampleVideo ''7''])
          (examplePage None 0 []))
       ''first'')) = Inr (exampleData 1 [exampleVideo ''7''])
   \<and> \<not> 100 < totalCount (exampleData 1 [exampleVideo ''7''])
   \<and> emitted (scrape exampleRuntime
        (exampleWorld 200 (examplePage exampleCanonical 1 [exampleVideo ''7''])
           (examplePage None 0 []))
        (Some (exampleRequest ''1'')) True)
      = [\<lparr>item_title = ''episode 7'',
          item_id = ''https://www.nicovideo.jp/watch/sm7'',
          item_link = ''https://www.nicovideo.jp/watch/sm7'',
          item_description = ''about 7'',
          item_content = ''https://www.nicovideo.jp/watch/sm7'',
          item_image = Some ''https://img.example/7'',
          item_date = DateOf ''2024-01-07''\<rparr>]"
  using entry_and_item_fields
    [where w = "exampleWorld 200 (examplePage exampleCanonical 1 [exampleVideo ''7''])
                  (examplePage None 0 [])"
       and req = "Some (exampleRequest ''1'')" and seriesId = "''1''" and res = True
       and st = 200 and body = "''first''" and data = "exampleData 1 [exampleVideo ''7'']"
       and data' = "exampleData 1 [exampleVideo ''7'']" and rt = exampleRuntime]
  by (simp add: example_defs exampleVideo_def)

text \<open>
  C5. Take two runs of the same request in which the first page reports the same
  \<open>totalCount > 100\<close> and the same canonical URL, and the request for the last page gets the
  same answer, read the same way. Whatever else the two first pages hold, the runs end in
  the same state: the same requests, log entries, feed and response.
\<close>

theorem refetch_discards_first_page:
  assumes "resolveSeriesId w req = Some seriesId"
      and "resolveSeriesId w' req = Some seriesId"
      and "seriesId \<noteq> []"
      and "fetch w (seriesUrl seriesId) = Response st body"
      and "fetch w' (seriesUrl seriesId) = Response st' body'"
      and "firstBodyData (extractInitialAPIData (load w body)) = Inr data"
      and "firstBodyData (extractInitialAPIData (load w' body')) = Inr data'"
      and "totalCount data' = totalCount data"
      and "100 < totalCount data"
      and "extractCanonicalUrl (load w' body') = extractCanonicalUrl (load w body)"
      and "fetch w' (pageUrl rt (extractCanonicalUrl (load w body)) (pageNo (totalCount data)))
             = fetch w (pageUrl rt (extractCanonicalUrl (load w body)) (pageNo (totalCount data)))"
      and "case fetch w (pageUrl rt (extractCanonicalUrl (load w body)) (pageNo (totalCount data))) of
             NetworkError \<Rightarrow> True
           | Response st2 body2 \<Rightarrow> load w' body2 = load w body2"
  shows "scrape rt w' req res = scrape rt w req res
         \<and> emitted (scrape rt w' req res) = emitted (scrape rt w req res)
         \<and> sent (scrape rt w' req res) = sent (scrape rt w req res)"
proof -
  have "check rt w' req res initState = check rt w req res initState"
    unfolding check_first_ok [OF assms(1,3,4,6)] check_first_ok [OF assms(2,3,5,7)]
      assms(8) assms(10) reFetch_cong [OF assms(11,12)]
    using assms(9) by simp
  then show ?thesis
    by (simp add: scrape_def)
qed

theorem refetch_discards_first_page_witness:
  "resolveSeriesId
     (exampleWorld 200 (examplePage exampleCanonical 250 [exampleVideo ''1''])
        (examplePage exampleCanonical 250 threeVideos))
     (Some (exampleRequest ''1'')) = Some ''1''
   \<and> fetch
       (exampleWorld 200 (examplePage exampleCanonical 250 [exampleVideo ''1''])
          (examplePage exampleCanonical 250 threeVideos))
       (seriesUrl ''1'') = Response 200 ''first''
   \<and> fetch
       (exampleWorld 200 (examplePage exampleCanonical 250 [exampleVideo ''2''])
          (examplePage exampleCanonical 250 threeVideos))
       (seriesUrl ''1'') = Response 200 ''first''
   \<and> firstBodyData (extractInitialAPIData (load
       (exampleWorld 200 (examplePage exampleCanonical 250 [exampleVideo ''1''])
          (examplePage exampleCanonical 250 threeVideos))
       ''first'')) = Inr (exampleData 250 [exampleVideo ''1''])
   \<and> firstBodyData (extractInitialAPIData (load
       (exampleWorld 200 (examplePage exampleCanonical 250 [exampleVideo ''2''])
          (examplePage exampleCanonical 250 threeVideos))
       ''first'')) = Inr (exampleData 250 [exampleVideo ''2''])
   \<and> exampleData 250 [exampleVideo ''2''] \<noteq> exampleData 250 [exampleVideo ''1'']
   \<and> 100 < totalCount (exampleData 250 [exampleVideo ''1''])
   \<and> fetch
       (exampleWorld 200 (examplePage exampleCanonical 250 [exampleVideo ''1''])
          (examplePage exampleCanonical 250 threeVideos))
       (pageUrl exampleRuntime exampleCanonical (pageNo 250)) = Response 200 ''last''
   \<and> scrape exampleRuntime
       (exampleWorld 200 (examplePage exampleCanonical 250 [exampleVideo ''2''])
          (examplePage exampleCanonical 250 threeVideos))
       (Some (exampleRequest ''1'')) True
     = scrape exampleRuntime
       (exampleWorld 200 (examplePage exampleCanonical 250 [exampleVideo ''1''])
          (examplePage exampleCanonical 250 threeVideos))
       (Some (exampleRequest ''1'')) True"
  using refetch_discards_first_page
    [where w = "exampleWorld 200 (examplePage exampleCanonical 250 [exampleVideo ''1''])
                  (examplePage exampleCanonical 250 threeVideos)"
       and req = "Some (exampleRequest ''1'')" and seriesId = "''1''"
       and w' = "exampleWorld 200 (examplePage exampleCanonical 250 [exampleVideo ''2''])
                   (examplePage exampleCanonical 250 threeVideos)"
       and st = 200 and body = "''first''" and st' = 200 and body' = "''first''"
       and data = "exampleData 250 [exampleVideo ''1'']"
       and data' = "exampleData 250 [exampleVideo ''2'']" and res = True
       and rt = exampleRuntime]
  by (simp add: example_defs pageUrl_def show_opt_def pageNo_250 show_number_3 exampleVideo_def)

text \<open>
  C6. When the item list that reaches the mapping is empty, the response is 404 with the
  body \<open>No entries found\<close>, and no feed object is built or serialised.
\<close>

theorem no_entries_404:
  assumes "resolveSeriesId w req = Some seriesId" "seriesId \<noteq> []"
      and "fetch w (seriesUrl seriesId) = Response st body"
      and "firstBodyData (extractInitialAPIData (load w body)) = Inr data"
      and "if 100 < totalCount data
           then fetch w (pageUrl rt (extractCanonicalUrl (load w body)) (pageNo (totalCount data)))
                  = Response st2 body2
                \<and> firstBodyData (extractInitialAPIData (load w body2)) = Inr data'
           else data' = data"
      and "length (items data') = 0"
  shows "sent (scrape rt w req res) = (if res then Some (404, Plain ''No entries found'') else None)
         \<and> feed (scrape rt w req res) = None
         \<and> emitted (scrape rt w req res) = []"
proof -
  from assms(6) have emp: "items data' = []"
    by simp
  note run = check_final [OF assms(1-5), of res]
  have s: "sent (scrape rt w req res) = (if res then Some (404, Plain ''No entries found'') else None)"
    unfolding scrape_caught run sent_caught_respond using emp by (simp add: initState_def)
  have f: "feed (scrape rt w req res) = None"
    unfolding scrape_caught feed_caught run using emp by (simp add: feed_respond initState_def)
  show ?thesis
    by (simp add: s f emitted_def)
qed

theorem no_entries_404_witness:
  "resolveSeriesId
     (exampleWorld 200 (examplePage exampleCanonical 250 threeVideos)
        (examplePage exampleCanonical 250 []))
     (Some (exampleRequest ''1'')) = Some ''1''
   \<and> fetch
       (exampleWorld 200 (examplePage exampleCanonical 250 threeVideos)
          (examplePage exampleCanonical 250 []))
       (seriesUrl ''1'') = Response 200 ''first''
   \<and> firstBodyData (extractInitialAPIData (load
       (exampleWorld 200 (examplePage exampleCanonical 250 threeVideos)
          (examplePage exampleCanonical 250 []))
       ''first'')) = Inr (exampleData 250 threeVideos)
   \<and> 100 < totalCount (exampleData 250 threeVideos)
   \<and> fetch
       (exampleWorld 200 (examplePage exampleCanonical 250 threeVideos)
          (examplePage exampleCanonical 250 []))
       (pageUrl exampleRuntime exampleCanonical (pageNo 250)) = Response 200 ''last''
   \<and> firstBodyData (extractInitialAPIData (load
       (exampleWorld 200 (examplePage exampleCanonical 250 threeVideos)
          (examplePage exampleCanonical 250 []))
       ''last'')) = Inr (exampleData 250 [])
   \<and> length (items (exampleData 250 [])) = 0
   \<and> sent (scrape exampleRuntime
        (exampleWorld 200 (examplePage exampleCanonical 250 threeVideos)
           (examplePage exampleCanonical 250 []))
        (Some (exampleRequest ''1'')) True) = Some (404, Plain ''No entries found'')
   \<and> feed (scrape exampleRuntime
        (exampleWorld 200 (examplePage exampleCanonical 250 threeVideos)
           (examplePage exampleCanonical 250 []))
        (Some (exampleRequest ''1'')) True) = None"
  using no_entries_404
    [where w = "exampleWorld 200 (examplePage exampleCanonical 250 threeVideos)
                  (examplePage exampleCanonical 250 [])"
       and req = "Some (exampleRequest ''1'')" and seriesId = "''1''" and res = True
       and st = 200 and body = "''first''" and data = "exampleData 250 threeVideos"
       and ?st2.0 = 200 and ?body2.0 = "''last''" and data' = "exampleData 250 []"
       and rt = exampleRuntime]
  by (simp add: example_defs pageUrl_def show_opt_def pageNo_250 show_number_3)

text \<open>
  C7. The claim asks for a 500 response with the generic body whenever processing throws.
  For a request without a series identifier and no \<open>SERIES_ID\<close>, the \<open>scrape\<close> of
  \<open>src/unnamed/part_001\<close> leaves the rejection of \<open>check\<close> unhandled and sends nothing, where
  the \<open>scrape\<close> of \<open>src/index.ts\<close> sends the 500 response; and no run of the former ever
  sends a 500 response.
\<close>

theorem scrape_part_001_rejection_unhandled:
  "scrape_part_001 exampleRuntime
     (exampleWorld 200 (examplePage None 0 []) (examplePage None 0 []))
     (Some \<lparr>query = Some Map.empty\<rparr>) True
     = (Rejected NoSeriesIdSpecified, initState)
   \<and> sent initState = None
   \<and> sent (scrape exampleRuntime
        (exampleWorld 200 (examplePage None 0 []) (examplePage None 0 []))
        (Some \<lparr>query = Some Map.empty\<rparr>) True)
      = Some (500, Plain ''something went wrong. please check logs'')
   \<and> sent (snd (scrape_part_001 rt w req res))
      \<noteq> Some (500, Plain ''something went wrong. please check logs'')"
proof -
  let ?w = "exampleWorld 200 (examplePage None 0 []) (examplePage None 0 [])"
  let ?r = "Some \<lparr>query = Some Map.empty\<rparr>"
  have r: "resolveSeriesId ?w ?r = None"
    by (simp add: resolveSeriesId_def querySeriesId_def exampleWorld_def)
  have a: "scrape_part_001 exampleRuntime ?w ?r True = (Rejected NoSeriesIdSpecified, initState)"
    by (simp add: scrape_part_001_def check_part_001_def r)
  have c: "check exampleRuntime ?w ?r True initState = (Rejected NoSeriesIdSpecified, initState)"
    by (simp add: check_no_series_id r)
  have b: "sent (scrape exampleRuntime ?w ?r True)
      = Some (500, Plain ''something went wrong. please check logs'')"
    unfolding scrape_caught c caught_Rejected sent_catch by simp
  have d: "sent (snd (scrape_part_001 rt w req res))
      \<noteq> Some (500, Plain ''something went wrong. please check logs'')"
    using sent_check_part_001
      [of rt w req res initState 500 "Plain ''something went wrong. please check logs''"]
    by (auto simp: scrape_part_001_def initState_def)
  from a b d show ?thesis
    by (simp add: initState_def)
qed




text \<open>
  C9. Let the first page be fetched and read, without a canonical URL. Reading it does
  not fail: if \<open>totalCount \<le> 100\<close>, \<open>check\<close> goes on to the mapping and the response is the
  usual one (404 without items; else 200 with the feed, or 500 when the serialiser throws).
  If \<open>totalCount > 100\<close>, the refetch asks for the text \<open>undefined?page=N\<close>, which has no
  scheme: \<open>fetch\<close> rejects it, \<open>check\<close> rejects with the fetch failure, no feed is built and
  the response is 500.
\<close>

theorem missing_canonical_url:
  assumes "resolveSeriesId w req = Some seriesId" "seriesId \<noteq> []"
      and "fetch w (seriesUrl seriesId) = Response st body"
      and "firstBodyData (extractInitialAPIData (load w body)) = Inr data"
      and "extractCanonicalUrl (load w body) = None"
  shows "(totalCount data \<le> 100 \<longrightarrow>
            check rt w req res initState
              = respond rt seriesId None (totalCount data) data res
                  (initState\<lparr>fetched := [seriesUrl seriesId]\<rparr>)
            \<and> sent (scrape rt w req res)
                = (if res
                   then Some (if items data = [] then (404, Plain ''No entries found'')
                              else (case rss2 rt (builtFeed seriesId data) of
                                      None \<Rightarrow> (200, Rss2 (builtFeed seriesId data))
                                    | Some e \<Rightarrow>
                                        (500, Plain ''something went wrong. please check logs'')))
                   else None))
         \<and> (100 < totalCount data \<longrightarrow>
            fetch w (''undefined?page='' @ show_number rt (pageNo (totalCount data)))
              = NetworkError
            \<and> check rt w req res initState
                = (Rejected FetchFailure,
                   initState\<lparr>fetched :=
                     [seriesUrl seriesId,
                      ''undefined?page='' @ show_number rt (pageNo (totalCount data))]\<rparr>)
            \<and> fetched (scrape rt w req res)
                = [seriesUrl seriesId,
                   ''undefined?page='' @ show_number rt (pageNo (totalCount data))]
            \<and> feed (scrape rt w req res) = None
            \<and> sent (scrape rt w req res)
                = (if res then Some (500, Plain ''something went wrong. please check logs'')
                   else None))"
proof (intro conjI impI)
  assume le: "totalCount data \<le> 100"
  have fin: "if 100 < totalCount data
      then fetch w (pageUrl rt (extractCanonicalUrl (load w body)) (pageNo (totalCount data)))
             = Response 0 []
           \<and> firstBodyData (extractInitialAPIData (load w [])) = Inr data
      else data = data"
    using le by simp
  note run = check_final [OF assms(1-4) fin, of res]
  show "check rt w req res initState
      = respond rt seriesId None (totalCount data) data res
          (initState\<lparr>fetched := [seriesUrl seriesId]\<rparr>)"
    unfolding run assms(5) using le by simp
  show "sent (scrape rt w req res)
      = (if res
         then Some (if items data = [] then (404, Plain ''No entries found'')
                    else (case rss2 rt (builtFeed seriesId data) of
                            None \<Rightarrow> (200, Rss2 (builtFeed seriesId data))
                          | Some e \<Rightarrow> (500, Plain ''something went wrong. please check logs'')))
         else None)"
    unfolding scrape_caught run sent_caught_respond by (simp add: initState_def)
next
  assume gt: "100 < totalCount data"
  have u: "pageUrl rt None (pageNo (totalCount data))
      = ''undefined?page='' @ show_number rt (pageNo (totalCount data))"
    by (simp add: pageUrl_def show_opt_def)
  have rej: "fetch w (pageUrl rt (extractCanonicalUrl (load w body)) (pageNo (totalCount data)))
      = NetworkError"
    unfolding assms(5) by (rule fetch_undefined)
  then show "fetch w (''undefined?page='' @ show_number rt (pageNo (totalCount data)))
      = NetworkError"
    by (simp add: assms(5) u)
  have c: "check rt w req res initState
      = (Rejected FetchFailure,
         initState\<lparr>fetched := fetched initState @
           [seriesUrl seriesId,
            pageUrl rt (extractCanonicalUrl (load w body)) (pageNo (totalCount data))]\<rparr>)"
    by (rule check_second_NetworkError [OF assms(1-4) gt rej])
  then show "check rt w req res initState
      = (Rejected FetchFailure,
         initState\<lparr>fetched :=
           [seriesUrl seriesId,
            ''undefined?page='' @ show_number rt (pageNo (totalCount data))]\<rparr>)"
    by (simp add: initState_def assms(5) u)
  show "fetched (scrape rt w req res)
      = [seriesUrl seriesId, ''undefined?page='' @ show_number rt (pageNo (totalCount data))]"
    unfolding scrape_caught c caught_Rejected fetched_catch
    by (simp add: initState_def assms(5) u)
  show "feed (scrape rt w req res) = None"
    unfolding scrape_caught c caught_Rejected feed_catch by (simp add: initState_def)
  show "sent (scrape rt w req res)
      = (if res then Some (500, Plain ''something went wrong. please check logs'') else None)"
    unfolding scrape_caught c caught_Rejected sent_catch by (simp add: initState_def)
qed

theorem missing_canonical_url_witness:
  "resolveSeriesId (exampleWorld 200 (examplePage None 3 threeVideos) (examplePage None 0 []))
     (Some (exampleRequest ''1'')) = Some ''1''
   \<and> fetch (exampleWorld 200 (examplePage None 3 threeVideos) (examplePage None 0 []))
       (seriesUrl ''1'') = Response 200 ''first''
   \<and> firstBodyData (extractInitialAPIData (load
       (exampleWorld 200 (examplePage None 3 threeVideos) (examplePage None 0 []))
       ''first'')) = Inr (exampleData 3 threeVideos)
   \<and> extractCanonicalUrl (load
       (exampleWorld 200 (examplePage None 3 threeVideos) (examplePage None 0 [])) ''first'') = None
   \<and> totalCount (exampleData 3 threeVideos) \<le> 100
   \<and> sent (scrape exampleRuntime
        (exampleWorld 200 (examplePage None 3 threeVideos) (examplePage None 0 []))
        (Some (exampleRequest ''1'')) True)
      = Some (200, Rss2 (builtFeed ''1'' (exampleData 3 threeVideos)))
   \<and> extractCanonicalUrl (load
       (exampleWorld 200 (examplePage None 250 threeVideos) (examplePage None 0 [])) ''first'') = None
   \<and> 100 < totalCount (exampleData 250 threeVideos)
   \<and> fetched (scrape exampleRuntime
        (exampleWorld 200 (examplePage None 250 threeVideos) (examplePage None 0 []))
        (Some (exampleRequest ''1'')) True)
      = [''https://www.nicovideo.jp/series/1'', ''undefined?page=3'']
   \<and> sent (scrape exampleRuntime
        (exampleWorld 200 (examplePage None 250 threeVideos) (examplePage None 0 []))
        (Some (exampleRequest ''1'')) True)
      = Some (500, Plain ''something went wrong. please check logs'')"
  using
    missing_canonical_url
      [where w = "exampleWorld 200 (examplePage None 3 threeVideos) (examplePage None 0 [])"
         and req = "Some (exampleRequest ''1'')" and seriesId = "''1''" and res = True
         and st = 200 and body = "''first''" and data = "exampleData 3 threeVideos"
         and rt = exampleRuntime]
    missing_canonical_url
      [where w = "exampleWorld 200 (examplePage None 250 threeVideos) (examplePage None 0 [])"
         and req = "Some (exampleRequest ''1'')" and seriesId = "''1''" and res = True
         and st = 200 and body = "''first''" and data = "exampleData 250 threeVideos"
         and rt = exampleRuntime]
  by (simp add: example_defs example_feed_defs pageNo_250 show_number_3)

text \<open>
  C10. A request whose \<open>seriesId\<close> parameter is the empty string does not fall back to
  \<open>SERIES_ID\<close>, whatever its value: the identifier resolves to the empty string, \<open>check\<close>
  rejects with the missing-identifier error before any request is made, and the response
  is 500.
\<close>

theorem empty_seriesId_no_fallback:
  assumes "querySeriesId req = Some []"
  shows "resolveSeriesId w req = Some []
         \<and> check rt w req res initState = (Rejected NoSeriesIdSpecified, initState)
         \<and> fetched (scrape rt w req res) = []
         \<and> sent (scrape rt w req res)
             = (if res then Some (500, Plain ''something went wrong. please check logs'') else None)"
proof -
  have r: "resolveSeriesId w req = Some []"
    using assms by (simp add: resolveSeriesId_def)
  then have c: "check rt w req res initState = (Rejected NoSeriesIdSpecified, initState)"
    by (simp add: check_no_series_id)
  show ?thesis
    unfolding scrape_caught c caught_Rejected sent_catch fetched_catch
    using r by (simp add: initState_def)
qed

theorem empty_seriesId_no_fallback_witness:
  "querySeriesId (Some (exampleRequest [])) = Some []
   \<and> SERIES_ID ((exampleWorld 200 (examplePage None 0 []) (examplePage None 0 []))
        \<lparr>SERIES_ID := Some ''123''\<rparr>) = Some ''123''
   \<and> resolveSeriesId
       ((exampleWorld 200 (examplePage None 0 []) (examplePage None 0 []))
          \<lparr>SERIES_ID := Some ''123''\<rparr>)
       (Some (exampleRequest [])) = Some []
   \<and> sent (scrape exampleRuntime
        ((exampleWorld 200 (examplePage None 0 []) (examplePage None 0 []))
           \<lparr>SERIES_ID := Some ''123''\<rparr>)
        (Some (exampleRequest [])) True)
      = Some (500, Plain ''something went wrong. please check logs'')"
  using empty_seriesId_no_fallback
    [where req = "Some (exampleRequest [])"
       and w = "(exampleWorld 200 (examplePage None 0 []) (examplePage None 0 []))
                  \<lparr>SERIES_ID := Some ''123''\<rparr>"
       and res = True and rt = exampleRuntime]
  by (simp add: querySeriesId_def exampleRequest_def exampleWorld_def)

end
